theory Spec2Isabelle
  imports Complex_Main "HOL-Library.AList"
begin

section \<open>Velocity dashboard: growth rates, velocity and trading zones\<close>

text \<open>
  A shallow embedding of \<^verbatim>\<open>src/app.py\<close>: the function \<^verbatim>\<open>calculate_velocity\<close>
  (lines 15-21), the part of the script that filters the annotated table and takes its last
  row (lines 56-62, 78, 105) and the function \<^verbatim>\<open>get_trading_recommendation\<close>
  (lines 88-98). Fetching the prices, the charts, the tables and the spreadsheet export
  are not modelled.
\<close>

subsection \<open>Cells of a float64 column\<close>

text \<open>
  A cell of a pandas float64 column is a finite number, one of the two infinities, or NaN.
  The special values follow IEEE 754 as numpy computes them: an operation with a NaN
  operand is NaN, \<^verbatim>\<open>inf - inf\<close>, \<^verbatim>\<open>0 * inf\<close>, \<^verbatim>\<open>inf / inf\<close> and
  \<^verbatim>\<open>0 / 0\<close> are NaN, and a nonzero number divided by zero is an infinity: a pandas
  column division raises no \<^verbatim>\<open>ZeroDivisionError\<close>.
  Finite results are computed over the reals: rounding to 53 bits and overflow of finite
  operands to an infinity are left out, and a zero is the positive zero.
\<close>

datatype fl = Fin real | PInf | NInf | NaN

fun fneg :: "fl \<Rightarrow> fl" where
  "fneg (Fin a) = Fin (- a)"
| "fneg PInf = NInf"
| "fneg NInf = PInf"
| "fneg NaN = NaN"

fun fadd :: "fl \<Rightarrow> fl \<Rightarrow> fl" where
  "fadd (Fin a) (Fin b) = Fin (a + b)"
| "fadd (Fin a) PInf = PInf"
| "fadd (Fin a) NInf = NInf"
| "fadd PInf (Fin b) = PInf"
| "fadd PInf PInf = PInf"
| "fadd PInf NInf = NaN"
| "fadd NInf (Fin b) = NInf"
| "fadd NInf NInf = NInf"
| "fadd NInf PInf = NaN"
| "fadd NaN y = NaN"
| "fadd x NaN = NaN"

definition fsub :: "fl \<Rightarrow> fl \<Rightarrow> fl" where
  "fsub x y = fadd x (fneg y)"

text \<open>The infinity with the sign of a nonzero real, and NaN at zero.\<close>

definition signed_inf :: "real \<Rightarrow> fl" where
  "signed_inf a = (if a = 0 then NaN else if 0 < a then PInf else NInf)"

fun fmul :: "fl \<Rightarrow> fl \<Rightarrow> fl" where
  "fmul (Fin a) (Fin b) = Fin (a * b)"
| "fmul (Fin a) PInf = signed_inf a"
| "fmul (Fin a) NInf = signed_inf (- a)"
| "fmul PInf (Fin b) = signed_inf b"
| "fmul NInf (Fin b) = signed_inf (- b)"
| "fmul PInf PInf = PInf"
| "fmul PInf NInf = NInf"
| "fmul NInf PInf = NInf"
| "fmul NInf NInf = PInf"
| "fmul NaN y = NaN"
| "fmul x NaN = NaN"

fun fdiv :: "fl \<Rightarrow> fl \<Rightarrow> fl" where
  "fdiv (Fin a) (Fin b) = (if b = 0 then signed_inf a else Fin (a / b))"
| "fdiv (Fin a) PInf = Fin 0"
| "fdiv (Fin a) NInf = Fin 0"
| "fdiv PInf (Fin b) = (if 0 \<le> b then PInf else NInf)"
| "fdiv NInf (Fin b) = (if 0 \<le> b then NInf else PInf)"
| "fdiv PInf PInf = NaN"
| "fdiv PInf NInf = NaN"
| "fdiv NInf PInf = NaN"
| "fdiv NInf NInf = NaN"
| "fdiv NaN y = NaN"
| "fdiv x NaN = NaN"

text \<open>Comparisons: every comparison with NaN is false.\<close>

fun flt :: "fl \<Rightarrow> fl \<Rightarrow> bool" where
  "flt (Fin a) (Fin b) = (a < b)"
| "flt (Fin a) PInf = True"
| "flt NInf (Fin b) = True"
| "flt NInf PInf = True"
| "flt x y = False"

fun fle :: "fl \<Rightarrow> fl \<Rightarrow> bool" where
  "fle (Fin a) (Fin b) = (a \<le> b)"
| "fle (Fin a) PInf = True"
| "fle NInf (Fin b) = True"
| "fle NInf PInf = True"
| "fle PInf PInf = True"
| "fle NInf NInf = True"
| "fle x y = False"

definition isna :: "fl \<Rightarrow> bool" where
  "isna x = (x = NaN)"

subsection \<open>The trading zones\<close>

text \<open>
  \<^verbatim>\<open>get_trading_recommendation\<close> returns one of five texts, or nothing (Python's
  \<^verbatim>\<open>None\<close>) when no branch of the chain is taken. The five texts are distinct; a
  constructor stands for each, in the order of the branches:
  \<^item> \<open>Bubble\<close>: the text of line 90 (bubble zone: stop buying, alpha sell);
  \<^item> \<open>Overheated\<close>: line 92 (overspeed zone: graded small buy);
  \<^item> \<open>Normal\<close>: line 94 (normal speed zone: regular buy);
  \<^item> \<open>Slow\<close>: line 96 (low speed zone: graded large buy);
  \<^item> \<open>Retreat\<close>: line 98 (retreat zone: alpha buy).
\<close>

datatype zone = Bubble | Overheated | Normal | Slow | Retreat

definition get_trading_recommendation :: "fl \<Rightarrow> zone option" where
  "get_trading_recommendation velocity =
     (if flt (Fin 150) velocity then Some Bubble
      else if flt (Fin 100) velocity \<and> fle velocity (Fin 150) then Some Overheated
      else if flt (Fin 50) velocity \<and> fle velocity (Fin 100) then Some Normal
      else if flt (Fin 0) velocity \<and> fle velocity (Fin 50) then Some Slow
      else if fle velocity (Fin 0) then Some Retreat
      else None)"

text \<open>The five conditions of the chain, each on its own, for a real velocity.\<close>

definition zone_pred :: "zone \<Rightarrow> real \<Rightarrow> bool" where
  "zone_pred z v =
     (case z of
        Bubble \<Rightarrow> 150 < v
      | Overheated \<Rightarrow> 100 < v \<and> v \<le> 150
      | Normal \<Rightarrow> 50 < v \<and> v \<le> 100
      | Slow \<Rightarrow> 0 < v \<and> v \<le> 50
      | Retreat \<Rightarrow> v \<le> 0)"

subsection \<open>Series and frames\<close>

text \<open>
  A \<open>series\<close> is a float64 column read by position. A \<open>frame\<close> is the table the
  script works on: the \<^verbatim>\<open>Date\<close> column (time stamps, as integers) and the float64
  columns by name, in their order. \<^verbatim>\<open>data[k] = s\<close> replaces the column \<open>k\<close> where
  it exists and appends it otherwise; \<^verbatim>\<open>data[k]\<close> raises \<^verbatim>\<open>KeyError\<close> for a
  missing column; \<^verbatim>\<open>iloc[-1]\<close> raises \<^verbatim>\<open>IndexError\<close> on a frame without rows.
\<close>

type_synonym series = "fl list"

record frame =
  Date :: "int list"
  cols :: "(string \<times> series) list"

datatype error = KeyError string | IndexError

definition getitem :: "frame \<Rightarrow> string \<Rightarrow> error + series" where
  "getitem data k = (case map_of (cols data) k of None \<Rightarrow> Inl (KeyError k) | Some s \<Rightarrow> Inr s)"

definition setitem :: "frame \<Rightarrow> string \<Rightarrow> series \<Rightarrow> frame" where
  "setitem data k s = data\<lparr>cols := AList.update k s (cols data)\<rparr>"

fun err_bind :: "error + 'a \<Rightarrow> ('a \<Rightarrow> error + 'b) \<Rightarrow> error + 'b" where
  "err_bind (Inl e) f = Inl e"
| "err_bind (Inr x) f = f x"

text \<open>
  In a frame every column has one cell for each row and the column names are distinct.
  The operations below read the cells of a row by position; they are meant for such frames,
  where every position they read is in range.
\<close>

definition wf_frame :: "frame \<Rightarrow> bool" where
  "wf_frame data =
     (distinct (map fst (cols data)) \<and>
      list_all (\<lambda>kc. length (snd kc) = length (Date data)) (cols data))"

text \<open>
  \<^verbatim>\<open>s.shift(n)\<close> moves the cells \<open>n\<close> rows down: the first \<open>n\<close> cells are NaN and
  the length stays. The arithmetic of two series of one frame is cell by cell; a scalar
  operand is applied to every cell.
\<close>

definition shift :: "nat \<Rightarrow> series \<Rightarrow> series" where
  "shift n s = take (length s) (replicate n NaN @ s)"

definition ssub :: "series \<Rightarrow> series \<Rightarrow> series" where
  "ssub a b = map2 fsub a b"

definition sadd :: "series \<Rightarrow> series \<Rightarrow> series" where
  "sadd a b = map2 fadd a b"

definition sdiv :: "series \<Rightarrow> series \<Rightarrow> series" where
  "sdiv a b = map2 fdiv a b"

definition smul_scalar :: "series \<Rightarrow> fl \<Rightarrow> series" where
  "smul_scalar a c = map (\<lambda>x. fmul x c) a"

definition sdiv_scalar :: "series \<Rightarrow> fl \<Rightarrow> series" where
  "sdiv_scalar a c = map (\<lambda>x. fdiv x c) a"

subsection \<open>calculate_velocity\<close>

text \<open>
  \<^verbatim>\<open>calculate_velocity\<close> assigns four columns to the frame it is given and returns
  that frame; the model returns the updated frame.
  The right-hand side of lines 17, 18 and 19, which differ in the window only:
  \<^verbatim>\<open>(data['Close'] - data['Close'].shift(W)) / data['Close'].shift(W) * 100\<close>.
\<close>

definition growth :: "series \<Rightarrow> nat \<Rightarrow> series" where
  "growth close W = smul_scalar (sdiv (ssub close (shift W close)) (shift W close)) (Fin 100)"

text \<open>One term of line 20: \<^verbatim>\<open>g * 1/3\<close>, that is \<^verbatim>\<open>(g * 1) / 3\<close>.\<close>

definition third :: "series \<Rightarrow> series" where
  "third g = sdiv_scalar (smul_scalar g (Fin 1)) (Fin 3)"

definition calculate_velocity :: "frame \<Rightarrow> error + frame" where
  "calculate_velocity data =
     err_bind (getitem data ''Close'') (\<lambda>close.
     let data = setitem data ''240d Growth'' (growth close 240) in
     err_bind (getitem data ''Close'') (\<lambda>close.
     let data = setitem data ''480d Growth'' (growth close 480) in
     err_bind (getitem data ''Close'') (\<lambda>close.
     let data = setitem data ''1200d Growth'' (growth close 1200) in
     err_bind (getitem data ''240d Growth'') (\<lambda>g240.
     err_bind (getitem data ''480d Growth'') (\<lambda>g480.
     err_bind (getitem data ''1200d Growth'') (\<lambda>g1200.
     Inr (setitem data ''Velocity'' (sadd (sadd (third g240) (third g480)) (third g1200)))))))))"

subsection \<open>The script: filter, last row, recommendation\<close>

text \<open>
  \<^verbatim>\<open>dropna(inplace=True)\<close> keeps the rows without a missing cell. A missing cell of a
  float64 column is a NaN; an infinity is not missing. The time stamps of the
  \<^verbatim>\<open>Date\<close> column come from the index and are never missing.
\<close>

definition row_ok :: "frame \<Rightarrow> nat \<Rightarrow> bool" where
  "row_ok data i = list_all (\<lambda>kc. \<not> isna (snd kc ! i)) (cols data)"

definition kept :: "frame \<Rightarrow> nat list" where
  "kept data = filter (row_ok data) [0..<length (Date data)]"

definition dropna :: "frame \<Rightarrow> frame" where
  "dropna data =
     \<lparr>Date = map (\<lambda>i. Date data ! i) (kept data),
      cols = map (\<lambda>kc. (fst kc, map (\<lambda>i. snd kc ! i) (kept data))) (cols data)\<rparr>"

text \<open>A row of a frame: its date and its cells by column name.\<close>

record row =
  row_date :: int
  cells :: "(string \<times> fl) list"

definition row_at :: "frame \<Rightarrow> nat \<Rightarrow> row" where
  "row_at data i = \<lparr>row_date = Date data ! i, cells = map (\<lambda>kc. (fst kc, snd kc ! i)) (cols data)\<rparr>"

definition iloc_last :: "frame \<Rightarrow> error + row" where
  "iloc_last data =
     (if length (Date data) = 0 then Inl IndexError
      else Inr (row_at data (length (Date data) - 1)))"

definition row_getitem :: "row \<Rightarrow> string \<Rightarrow> error + fl" where
  "row_getitem r k = (case map_of (cells r) k of None \<Rightarrow> Inl (KeyError k) | Some x \<Rightarrow> Inr x)"

text \<open>
  Lines 59, 62, 78 and 105 of the script, from the fetched frame on: the filtered table,
  its last row and the recommendation for the velocity of that row. The lines between
  them only display the table.
\<close>

record result =
  velocity_data :: frame
  latest_data :: row
  recommendation :: "zone option"

definition dashboard :: "frame \<Rightarrow> error + result" where
  "dashboard index_data =
     err_bind (calculate_velocity index_data) (\<lambda>velocity_data.
     let velocity_data = dropna velocity_data in
     err_bind (iloc_last velocity_data) (\<lambda>latest_data.
     err_bind (row_getitem latest_data ''Velocity'') (\<lambda>v.
     Inr \<lparr>velocity_data = velocity_data, latest_data = latest_data,
          recommendation = get_trading_recommendation v\<rparr>)))"

subsection \<open>Names for the proofs\<close>

text \<open>
  The velocity column as line 20 computes it from the three growth columns, and the frame
  that \<^verbatim>\<open>calculate_velocity\<close> returns for a frame with the closing prices \<open>close\<close>.
\<close>

definition velocity_of :: "series \<Rightarrow> series" where
  "velocity_of close =
     sadd (sadd (third (growth close 240)) (third (growth close 480))) (third (growth close 1200))"

definition annotate :: "frame \<Rightarrow> series \<Rightarrow> frame" where
  "annotate data close =
     setitem (setitem (setitem (setitem data ''240d Growth'' (growth close 240))
       ''480d Growth'' (growth close 480)) ''1200d Growth'' (growth close 1200))
       ''Velocity'' (velocity_of close)"


text \<open>The columns that \<^verbatim>\<open>calculate_velocity\<close> writes.\<close>

definition new_columns :: "string list" where
  "new_columns = [''240d Growth'', ''480d Growth'', ''1200d Growth'', ''Velocity'']"



subsection \<open>Example frames\<close>

text \<open>A frame of 241 rows: the first close is 50, the others are 100.\<close>

definition ex_241 :: frame where
  "ex_241 = \<lparr>Date = map int [0..<241], cols = [(''Close'', Fin 50 # replicate 240 (Fin 100))]\<rparr>"


definition ex_1199 :: frame where
  "ex_1199 = \<lparr>Date = map int [0..<1199], cols = [(''Close'', replicate 1199 (Fin 100))]\<rparr>"

text \<open>
  Scenario C: 1201 rows with the closes 100, 250, 200 and 300 at the rows 0, 720, 960 and
  1200, and the close 1 at every other row.
\<close>

definition close_scenario_c :: series where
  "close_scenario_c =
     (replicate 1201 (Fin 1))[0 := Fin 100, 720 := Fin 250, 960 := Fin 200, 1200 := Fin 300]"

definition ex_scenario_c :: frame where
  "ex_scenario_c = \<lparr>Date = map int [0..<1201], cols = [(''Close'', close_scenario_c)]\<rparr>"





section \<open>Properties\<close>

subsection \<open>Series\<close>

lemma length_shift: "length (shift n s) = length s"
  by (simp add: shift_def)

lemma nth_shift: "i < length s \<Longrightarrow> shift n s ! i = (if i < n then NaN else s ! (i - n))"
  by (simp add: shift_def nth_append)

lemma length_growth: "length (growth close W) = length close"
  by (simp add: growth_def smul_scalar_def sdiv_def ssub_def length_shift)

lemma nth_growth:
  "i < length close \<Longrightarrow>
   growth close W ! i =
     fmul (fdiv (fsub (close ! i) (shift W close ! i)) (shift W close ! i)) (Fin 100)"
  by (simp add: growth_def smul_scalar_def sdiv_def ssub_def length_shift)

lemma fsub_NaN: "fsub x NaN = NaN"
  by (cases x) (simp_all add: fsub_def)

lemma nth_growth_early: "i < length close \<Longrightarrow> i < W \<Longrightarrow> growth close W ! i = NaN"
  by (simp add: nth_growth nth_shift fsub_NaN)

lemma nth_growth_late:
  "i < length close \<Longrightarrow> W \<le> i \<Longrightarrow>
   growth close W ! i =
     fmul (fdiv (fsub (close ! i) (close ! (i - W))) (close ! (i - W))) (Fin 100)"
  by (simp add: nth_growth nth_shift)

lemma length_third: "length (third g) = length g"
  by (simp add: third_def sdiv_scalar_def smul_scalar_def)

lemma fmul_one: "fmul x (Fin 1) = x"
  by (cases x) (simp_all add: signed_inf_def)

lemma nth_third: "i < length g \<Longrightarrow> third g ! i = fdiv (g ! i) (Fin 3)"
  by (simp add: third_def sdiv_scalar_def smul_scalar_def fmul_one)

subsection \<open>Frames\<close>

lemma getitem_setitem:
  "getitem (setitem data k s) k' = (if k' = k then Inr s else getitem data k')"
  by (simp add: getitem_def setitem_def update_conv')

lemma calculate_velocity_Inr:
  "getitem data ''Close'' = Inr close \<Longrightarrow> calculate_velocity data = Inr (annotate data close)"
  by (simp add: calculate_velocity_def annotate_def velocity_of_def getitem_setitem Let_def)

lemma calculate_velocity_Inl:
  "getitem data ''Close'' = Inl e \<Longrightarrow> calculate_velocity data = Inl e"
  by (simp add: calculate_velocity_def)

subsection \<open>The zone classifier\<close>

lemma recommendation_Fin:
  "get_trading_recommendation (Fin v) =
     Some (if 150 < v then Bubble else if 100 < v then Overheated
           else if 50 < v then Normal else if 0 < v then Slow else Retreat)"
  by (simp add: get_trading_recommendation_def)

text \<open>
  C3, as the claim states it, fails: the value 100 is not in the Overheated zone and the
  value 50 is not in the Normal zone. The branch of line 91 needs \<open>100 < velocity\<close>, so
  100 falls to the branch of line 93 (Normal), and 50 falls to the branch of line 95 (Slow).
\<close>

theorem boundary_100_counterexample:
  "get_trading_recommendation (Fin 100) = Some Normal \<and>
   get_trading_recommendation (Fin 100) \<noteq> Some Overheated \<and>
   get_trading_recommendation (Fin 50) = Some Slow \<and>
   get_trading_recommendation (Fin 50) \<noteq> Some Normal"
  by (simp add: recommendation_Fin)

text \<open>
  C3, amended: every threshold belongs to the zone below it. The classifier maps 150 to
  Overheated, 100 to Normal, 50 to Slow and 0 to Retreat, and every value strictly above
  150, such as 150.0000001, to Bubble.
\<close>

theorem boundary_zones:
  "get_trading_recommendation (Fin 150) = Some Overheated \<and>
   get_trading_recommendation (Fin 100) = Some Normal \<and>
   get_trading_recommendation (Fin 50) = Some Slow \<and>
   get_trading_recommendation (Fin 0) = Some Retreat \<and>
   get_trading_recommendation (Fin (1500000001 / 10000000)) = Some Bubble \<and>
   (\<forall>v. 150 < v \<longrightarrow> get_trading_recommendation (Fin v) = Some Bubble)"
  by (simp add: recommendation_Fin)

theorem boundary_zones_witness:
  "(150::real) < 151 \<and> get_trading_recommendation (Fin 151) = Some Bubble"
  using boundary_zones by simp

text \<open>
  C4: the classifier is total on the real numbers. For every real velocity exactly one of
  the five zone conditions holds, the classifier returns the zone of that condition, and
  it never returns nothing.
\<close>

theorem classifier_total:
  "get_trading_recommendation (Fin v) \<noteq> None \<and>
   (\<exists>z. zone_pred z v \<and> (\<forall>z'. zone_pred z' v \<longrightarrow> z' = z)) \<and>
   (\<forall>z. (get_trading_recommendation (Fin v) = Some z) = zone_pred z v)"
proof -
  have total: "get_trading_recommendation (Fin v) \<noteq> None"
    by (simp add: recommendation_Fin)
  have agree: "(get_trading_recommendation (Fin v) = Some z) = zone_pred z v" for z
    by (cases z) (auto simp add: recommendation_Fin zone_pred_def)
  obtain z where z: "get_trading_recommendation (Fin v) = Some z"
    using total by blast
  have "zone_pred z v" using z agree by blast
  moreover have "z' = z" if "zone_pred z' v" for z'
    using that z agree [of z'] by simp
  ultimately show ?thesis using total agree by blast
qed

theorem classifier_total_witness:
  "zone_pred Normal 90 \<and> get_trading_recommendation (Fin 90) = Some Normal \<and>
   \<not> zone_pred Overheated 90"
proof -
  have n: "zone_pred Normal 90" by (simp add: zone_pred_def)
  obtain z where z: "zone_pred z 90" and u: "\<forall>z'. zone_pred z' 90 \<longrightarrow> z' = z"
    using classifier_total [of 90] by blast
  have "z = Normal" using n u by blast
  then have "\<not> zone_pred Overheated 90" using u by auto
  moreover have "get_trading_recommendation (Fin 90) = Some Normal"
    using classifier_total [of 90] n by blast
  ultimately show ?thesis using n by blast
qed

text \<open>
  C10: for a NaN velocity every comparison of the chain is false, so the classifier
  returns nothing: neither an error nor one of the five zones. NaN is the only input
  without a recommendation.
\<close>

theorem nan_not_classified:
  "get_trading_recommendation NaN = None \<and>
   (\<forall>x. (get_trading_recommendation x = None) = (x = NaN))"
proof -
  have "(get_trading_recommendation x = None) = (x = NaN)" for x
    by (cases x) (simp_all add: get_trading_recommendation_def)
  then show ?thesis by simp
qed

subsection \<open>The growth rates\<close>


lemma nth_velocity_of:
  "i < length close \<Longrightarrow>
   velocity_of close ! i =
     fadd (fadd (fdiv (growth close 240 ! i) (Fin 3)) (fdiv (growth close 480 ! i) (Fin 3)))
       (fdiv (growth close 1200 ! i) (Fin 3))"
  by (simp add: velocity_of_def sadd_def length_third length_growth nth_third)

lemma getitem_annotate:
  "getitem (annotate data close) ''240d Growth'' = Inr (growth close 240)"
  "getitem (annotate data close) ''480d Growth'' = Inr (growth close 480)"
  "getitem (annotate data close) ''1200d Growth'' = Inr (growth close 1200)"
  "getitem (annotate data close) ''Velocity'' = Inr (velocity_of close)"
  by (simp_all add: annotate_def getitem_setitem)


lemma growth_Fin:
  "i < length close \<Longrightarrow> W \<le> i \<Longrightarrow> close ! i = Fin a \<Longrightarrow> close ! (i - W) = Fin b \<Longrightarrow> b \<noteq> 0 \<Longrightarrow>
   growth close W ! i = Fin ((a - b) / b * 100)"
  by (simp add: nth_growth_late fsub_def)



subsection \<open>The velocity\<close>

lemma fadd_NaN_right: "fadd x NaN = NaN"
  by (cases x) simp_all

lemma velocity_NaN:
  "i < length close \<Longrightarrow>
   growth close 240 ! i = NaN \<or> growth close 480 ! i = NaN \<or> growth close 1200 ! i = NaN \<Longrightarrow>
   velocity_of close ! i = NaN"
  by (auto simp add: nth_velocity_of fadd_NaN_right)

lemma velocity_Fin:
  "i < length close \<Longrightarrow> growth close 240 ! i = Fin a \<Longrightarrow> growth close 480 ! i = Fin b \<Longrightarrow>
   growth close 1200 ! i = Fin c \<Longrightarrow> velocity_of close ! i = Fin (a / 3 + b / 3 + c / 3)"
  by (simp add: nth_velocity_of)








subsection \<open>The effect of calculate_velocity on the frame\<close>

lemma calculate_velocity_InrD:
  assumes "calculate_velocity data = Inr out"
  shows "\<exists>close. getitem data ''Close'' = Inr close \<and> out = annotate data close"
proof (cases "getitem data ''Close''")
  case (Inl e)
  then show ?thesis using assms by (simp add: calculate_velocity_Inl)
next
  case (Inr close)
  then show ?thesis using assms by (simp add: calculate_velocity_Inr)
qed

lemma Date_setitem: "Date (setitem data k s) = Date data"
  by (simp add: setitem_def)

lemma Date_annotate: "Date (annotate data close) = Date data"
  by (simp add: annotate_def Date_setitem)

lemma getitem_annotate_other:
  "k \<notin> set new_columns \<Longrightarrow> getitem (annotate data close) k = getitem data k"
  by (simp add: annotate_def getitem_setitem new_columns_def)

lemma names_setitem: "fst ` set (cols (setitem data k s)) = insert k (fst ` set (cols data))"
  by (simp add: setitem_def dom_update)

lemma names_annotate:
  "fst ` set (cols (annotate data close)) = fst ` set (cols data) \<union> set new_columns"
  by (auto simp add: annotate_def names_setitem new_columns_def)



text \<open>
  C9: \<^verbatim>\<open>calculate_velocity\<close> leaves the dates, the closing prices and every other
  column of the frame as they were; its only effect is that the frame has the three growth
  columns and the velocity column.
\<close>

theorem frame_unchanged:
  assumes "calculate_velocity data = Inr out"
  shows "Date out = Date data \<and> getitem out ''Close'' = getitem data ''Close'' \<and>
         (\<forall>k. k \<notin> set new_columns \<longrightarrow> getitem out k = getitem data k) \<and>
         fst ` set (cols out) = fst ` set (cols data) \<union> set new_columns"
proof -
  obtain close where out: "out = annotate data close"
    using calculate_velocity_InrD [OF assms] by blast
  have "''Close'' \<notin> set new_columns" by (simp add: new_columns_def)
  then show ?thesis
    using out by (simp add: Date_annotate getitem_annotate_other names_annotate)
qed

theorem frame_unchanged_witness:
  "(\<exists>out. calculate_velocity ex_241 = Inr out \<and> Date out = map int [0..<241] \<and>
      getitem out ''Close'' = Inr (Fin 50 # replicate 240 (Fin 100)) \<and>
      fst ` set (cols out) = insert ''Close'' (set new_columns))"
proof -
  have c: "getitem ex_241 ''Close'' = Inr (Fin 50 # replicate 240 (Fin 100))"
    by (simp add: ex_241_def getitem_def)
  have a: "calculate_velocity ex_241 = Inr (annotate ex_241 (Fin 50 # replicate 240 (Fin 100)))"
    using c by (rule calculate_velocity_Inr)
  have "''Close'' \<notin> set new_columns" by (simp add: new_columns_def)
  then show ?thesis
    using frame_unchanged [OF a] a c by (simp add: ex_241_def)
qed



subsection \<open>Filtering and the last row\<close>

lemma length_Date_dropna: "length (Date (dropna data)) = length (kept data)"
  by (simp add: dropna_def)

lemma iloc_last_empty: "kept data = [] \<Longrightarrow> iloc_last (dropna data) = Inl IndexError"
  by (simp add: iloc_last_def length_Date_dropna)

lemma in_cols_annotate:
  "(''Velocity'', velocity_of close) \<in> set (cols (annotate data close))"
  using getitem_annotate(4) [of data close]
  by (auto simp add: getitem_def split: option.splits dest: map_of_SomeD)

lemma row_ok_velocity:
  "row_ok (annotate data close) i \<Longrightarrow> velocity_of close ! i \<noteq> NaN"
  using in_cols_annotate [of close data]
  by (auto simp add: row_ok_def list_all_iff isna_def)

lemma velocity_early: "i < length close \<Longrightarrow> i < 1200 \<Longrightarrow> velocity_of close ! i = NaN"
  by (rule velocity_NaN) (simp_all add: nth_growth_early)

lemma wf_frame_length:
  "wf_frame data \<Longrightarrow> getitem data k = Inr s \<Longrightarrow> length s = length (Date data)"
  by (auto simp add: wf_frame_def getitem_def list_all_iff split: option.splits dest: map_of_SomeD)


lemma kept_short:
  assumes "wf_frame data" "getitem data ''Close'' = Inr close" "length (Date data) \<le> 1200"
  shows "kept (annotate data close) = []"
proof -
  have len: "length close = length (Date data)"
    using assms(1,2) by (rule wf_frame_length)
  have "\<not> row_ok (annotate data close) i" if "i < length (Date data)" for i
  proof -
    have "velocity_of close ! i = NaN"
      using that len assms(3) by (simp add: velocity_early)
    then show ?thesis using row_ok_velocity by blast
  qed
  then show ?thesis
    by (simp add: kept_def filter_empty_conv Date_annotate)
qed

lemma cols_dropna_empty:
  "kept data = [] \<Longrightarrow> list_all (\<lambda>kc. snd kc = []) (cols (dropna data))"
  by (simp add: dropna_def list_all_iff)

text \<open>
  C5: for a frame with fewer than 1200 rows every velocity is NaN, so the filter removes
  every row: the filtered table is empty, taking its last row raises \<^verbatim>\<open>IndexError\<close>,
  and the script ends with that error instead of a result.
\<close>

theorem insufficient_history:
  assumes "wf_frame data" and "getitem data ''Close'' = Inr close"
    and "length (Date data) < 1200"
  shows "\<exists>out. calculate_velocity data = Inr out \<and>
           Date (dropna out) = [] \<and> list_all (\<lambda>kc. snd kc = []) (cols (dropna out)) \<and>
           iloc_last (dropna out) = Inl IndexError \<and>
           dashboard data = Inl IndexError"
proof -
  let ?out = "annotate data close"
  have run: "calculate_velocity data = Inr ?out"
    using assms(2) by (rule calculate_velocity_Inr)
  have k: "kept ?out = []"
    using assms by (simp add: kept_short)
  have d: "Date (dropna ?out) = []"
    using k by (simp add: dropna_def)
  have e: "iloc_last (dropna ?out) = Inl IndexError"
    using k by (rule iloc_last_empty)
  have "dashboard data = Inl IndexError"
    using run e by (simp add: dashboard_def)
  then show ?thesis
    using run d e cols_dropna_empty [OF k] by blast
qed

theorem insufficient_history_witness:
  "wf_frame ex_1199 \<and> length (Date ex_1199) = 1199 \<and> dashboard ex_1199 = Inl IndexError"
proof -
  have w: "wf_frame ex_1199"
    by (simp add: ex_1199_def wf_frame_def)
  have c: "getitem ex_1199 ''Close'' = Inr (replicate 1199 (Fin 100))"
    by (simp add: ex_1199_def getitem_def)
  have l: "length (Date ex_1199) < 1200"
    by (simp add: ex_1199_def)
  have "length (Date ex_1199) = 1199"
    by (simp add: ex_1199_def)
  then show ?thesis
    using insufficient_history [OF w c l] w by blast
qed

lemma set_update_subset: "set (AList.update k v al) \<subseteq> insert (k, v) (set al)"
  by (induction al) auto

lemma set_cols_setitem: "set (cols (setitem data k s)) \<subseteq> insert (k, s) (set (cols data))"
  by (simp add: setitem_def set_update_subset)

lemma row_ok_setitem:
  assumes "row_ok data i" and "s ! i \<noteq> NaN"
  shows "row_ok (setitem data k s) i"
proof -
  have "\<not> isna (snd kc ! i)" if "kc \<in> set (cols (setitem data k s))" for kc
  proof -
    have "kc = (k, s) \<or> kc \<in> set (cols data)"
      using that set_cols_setitem [of data k s] by blast
    then show ?thesis
      using assms by (auto simp add: row_ok_def list_all_iff isna_def)
  qed
  then show ?thesis
    by (simp add: row_ok_def list_all_iff)
qed

lemma row_ok_annotate:
  assumes "row_ok data i" "growth close 240 ! i \<noteq> NaN" "growth close 480 ! i \<noteq> NaN"
    "growth close 1200 ! i \<noteq> NaN" "velocity_of close ! i \<noteq> NaN"
  shows "row_ok (annotate data close) i"
  unfolding annotate_def using assms by (intro row_ok_setitem)

lemma kept_last:
  assumes "0 < length (Date data)" "row_ok data (length (Date data) - 1)"
  shows "kept data \<noteq> [] \<and> last (kept data) = length (Date data) - 1"
proof -
  obtain m where m: "length (Date data) = Suc m"
    using assms(1) by (cases "length (Date data)") simp_all
  have "kept data = filter (row_ok data) [0..<m] @ [m]"
    using assms(2) m by (simp add: kept_def)
  then show ?thesis using m by simp
qed

lemma row_at_dropna:
  assumes "kept data \<noteq> []"
  shows "row_at (dropna data) (length (kept data) - 1) = row_at data (last (kept data))"
proof -
  have "length (kept data) - 1 < length (kept data)"
    using assms by (cases "kept data") simp_all
  then show ?thesis
    using assms by (simp add: row_at_def dropna_def last_conv_nth)
qed

lemma iloc_last_dropna:
  assumes "kept data \<noteq> []"
  shows "iloc_last (dropna data) = Inr (row_at data (last (kept data)))"
  using assms row_at_dropna [OF assms] by (simp add: iloc_last_def length_Date_dropna)

lemma map_of_cells:
  "map_of (map (\<lambda>kc. (fst kc, snd kc ! i)) al) k = map_option (\<lambda>c. c ! i) (map_of al k)"
  by (induction al) simp_all

lemma row_getitem_row_at:
  "getitem data k = Inr s \<Longrightarrow> row_getitem (row_at data i) k = Inr (s ! i)"
  by (simp add: row_getitem_def row_at_def getitem_def map_of_cells split: option.splits)

subsection \<open>The script on a frame whose last row is kept\<close>

lemma dashboard_last:
  assumes "getitem data ''Close'' = Inr close"
    and "0 < length (Date data)"
    and "row_ok (annotate data close) (length (Date data) - 1)"
  shows "dashboard data =
           Inr \<lparr>velocity_data = dropna (annotate data close),
                latest_data = row_at (annotate data close) (length (Date data) - 1),
                recommendation =
                  get_trading_recommendation (velocity_of close ! (length (Date data) - 1))\<rparr>"
proof -
  let ?A = "annotate data close"
  have run: "calculate_velocity data = Inr ?A"
    using assms(1) by (rule calculate_velocity_Inr)
  have k: "kept ?A \<noteq> []" "last (kept ?A) = length (Date data) - 1"
    using kept_last [of ?A] assms(2,3) by (simp_all add: Date_annotate)
  have l: "iloc_last (dropna ?A) = Inr (row_at ?A (length (Date data) - 1))"
    using iloc_last_dropna [OF k(1)] k(2) by simp
  have v: "row_getitem (row_at ?A (length (Date data) - 1)) ''Velocity''
      = Inr (velocity_of close ! (length (Date data) - 1))"
    by (rule row_getitem_row_at) (rule getitem_annotate)
  show ?thesis
    using run l v by (simp add: dashboard_def)
qed

text \<open>
  C7: for a frame of 1201 rows with \<open>close[1200] = 300\<close>, \<open>close[960] = 200\<close>,
  \<open>close[720] = 250\<close> and \<open>close[0] = 100\<close> (and no missing cell in row 1200), the
  growth rates of row 1200 are 50, 20 and 200, its velocity is 90, the script takes that
  row as the latest one and the recommendation is the one of the Normal zone.
\<close>

theorem scenario_c:
  assumes "wf_frame data" and "getitem data ''Close'' = Inr close"
    and "length close = 1201"
    and "close ! 1200 = Fin 300" and "close ! 960 = Fin 200"
    and "close ! 720 = Fin 250" and "close ! 0 = Fin 100"
    and "row_ok data 1200"
  shows "\<exists>out g240 g480 g1200 v r.
           calculate_velocity data = Inr out \<and>
           getitem out ''240d Growth'' = Inr g240 \<and> getitem out ''480d Growth'' = Inr g480 \<and>
           getitem out ''1200d Growth'' = Inr g1200 \<and> getitem out ''Velocity'' = Inr v \<and>
           g240 ! 1200 = Fin 50 \<and> g480 ! 1200 = Fin 20 \<and> g1200 ! 1200 = Fin 200 \<and>
           v ! 1200 = Fin 90 \<and> get_trading_recommendation (v ! 1200) = Some Normal \<and>
           dashboard data = Inr r \<and> latest_data r = row_at out 1200 \<and>
           row_getitem (latest_data r) ''Velocity'' = Inr (Fin 90) \<and>
           recommendation r = Some Normal"
proof -
  let ?A = "annotate data close"
  have i: "1200 < length close" using assms(3) by simp
  have len: "length (Date data) = 1201"
    using wf_frame_length [OF assms(1,2)] assms(3) by simp
  have g240: "growth close 240 ! 1200 = Fin 50"
    using growth_Fin [OF i, of 240 300 200] assms(4,5) by simp
  have g480: "growth close 480 ! 1200 = Fin 20"
    using growth_Fin [OF i, of 480 300 250] assms(4,6) by simp
  have g1200: "growth close 1200 ! 1200 = Fin 200"
    using growth_Fin [OF i, of 1200 300 100] assms(4,7) by simp
  have v: "velocity_of close ! 1200 = Fin 90"
    using velocity_Fin [OF i g240 g480 g1200] by simp
  have z: "get_trading_recommendation (Fin 90) = Some Normal"
    by (simp add: recommendation_Fin)
  have ok: "row_ok ?A (length (Date data) - 1)"
    using assms(8) g240 g480 g1200 v len by (simp add: row_ok_annotate)
  have d: "dashboard data =
      Inr \<lparr>velocity_data = dropna ?A, latest_data = row_at ?A 1200, recommendation = Some Normal\<rparr>"
    using dashboard_last [OF assms(2) _ ok] len v z by simp
  have rv: "row_getitem (row_at ?A 1200) ''Velocity'' = Inr (Fin 90)"
    using row_getitem_row_at [OF getitem_annotate(4), of data close 1200] v by simp
  have run: "calculate_velocity data = Inr ?A"
    using assms(2) by (rule calculate_velocity_Inr)
  show ?thesis
    using run getitem_annotate [of data close] g240 g480 g1200 v z d rv by force
qed

theorem scenario_c_witness:
  "wf_frame ex_scenario_c \<and> row_ok ex_scenario_c 1200 \<and>
   (\<exists>r. dashboard ex_scenario_c = Inr r \<and>
      row_getitem (latest_data r) ''Velocity'' = Inr (Fin 90) \<and>
      row_getitem (latest_data r) ''240d Growth'' = Inr (Fin 50) \<and>
      row_getitem (latest_data r) ''480d Growth'' = Inr (Fin 20) \<and>
      row_getitem (latest_data r) ''1200d Growth'' = Inr (Fin 200) \<and>
      recommendation r = Some Normal)"
proof -
  have w: "wf_frame ex_scenario_c"
    by (simp add: ex_scenario_c_def wf_frame_def close_scenario_c_def)
  have c: "getitem ex_scenario_c ''Close'' = Inr close_scenario_c"
    by (simp add: ex_scenario_c_def getitem_def)
  have l: "length close_scenario_c = 1201"
    by (simp add: close_scenario_c_def)
  have n: "close_scenario_c ! 1200 = Fin 300" "close_scenario_c ! 960 = Fin 200"
    "close_scenario_c ! 720 = Fin 250" "close_scenario_c ! 0 = Fin 100"
    by (simp_all add: close_scenario_c_def)
  have ok: "row_ok ex_scenario_c 1200"
    using n(1) by (simp add: row_ok_def ex_scenario_c_def isna_def)
  obtain out g240 g480 g1200 v r where
    g: "getitem out ''240d Growth'' = Inr g240" "getitem out ''480d Growth'' = Inr g480"
       "getitem out ''1200d Growth'' = Inr g1200"
    and gv: "g240 ! 1200 = Fin 50" "g480 ! 1200 = Fin 20" "g1200 ! 1200 = Fin 200"
    and d: "dashboard ex_scenario_c = Inr r" "latest_data r = row_at out 1200"
      "row_getitem (latest_data r) ''Velocity'' = Inr (Fin 90)" "recommendation r = Some Normal"
    using scenario_c [OF w c l n ok] by blast
  have "row_getitem (latest_data r) ''240d Growth'' = Inr (Fin 50)"
    using row_getitem_row_at [OF g(1), of 1200] d(2) gv(1) by simp
  moreover have "row_getitem (latest_data r) ''480d Growth'' = Inr (Fin 20)"
    using row_getitem_row_at [OF g(2), of 1200] d(2) gv(2) by simp
  moreover have "row_getitem (latest_data r) ''1200d Growth'' = Inr (Fin 200)"
    using row_getitem_row_at [OF g(3), of 1200] d(2) gv(3) by simp
  ultimately show ?thesis using w ok d by blast
qed

subsection \<open>A zero close at the base of a window\<close>







end
